theory Spec2Isabelle
  imports Main "HOL-Library.AList"
begin

section \<open>Text and bytes\<close>

text \<open>
  The client reads raw \<^verbatim>\<open>bytes\<close> from the transport and turns them into Python
  \<^verbatim>\<open>str\<close> values. Bytes are modelled as \<open>char list\<close> (a \<open>char\<close> is one byte),
  Python strings as lists of Unicode code points. \<open>ascii\<close> writes a Python string literal.
\<close>

type_synonym bytes = string
type_synonym ustr = "nat list"

definition ascii :: "string \<Rightarrow> ustr" where
  "ascii s = map of_char s"

subsection \<open>\<^verbatim>\<open>bytes.decode('utf-8')\<close>\<close>

text \<open>
  Strict UTF-8 decoding as Python performs it: overlong forms, surrogates and code points
  above U+10FFFF are rejected. \<open>None\<close> stands for \<^verbatim>\<open>UnicodeDecodeError\<close>.
  \<open>utf8_first b0 bs\<close> decodes the code point that starts with byte \<open>b0\<close> and says how
  many bytes of \<open>bs\<close> it used.
\<close>

definition cont_byte :: "nat \<Rightarrow> bool" where
  "cont_byte b = (0x80 \<le> b \<and> b \<le> 0xBF)"

definition utf8_first :: "nat \<Rightarrow> nat list \<Rightarrow> (nat \<times> nat) option" where
  "utf8_first b0 bs =
     (if b0 < 0x80 then Some (b0, 0)
      else if 0xC2 \<le> b0 \<and> b0 \<le> 0xDF then
        (case bs of
           b1 # r \<Rightarrow>
             if cont_byte b1 then Some ((b0 - 0xC0) * 64 + (b1 - 0x80), 1) else None
         | _ \<Rightarrow> None)
      else if 0xE0 \<le> b0 \<and> b0 \<le> 0xEF then
        (case bs of
           b1 # b2 # r \<Rightarrow>
             if cont_byte b1 \<and> cont_byte b2
                \<and> (if b0 = 0xE0 then 0xA0 \<le> b1 else True)
                \<and> (if b0 = 0xED then b1 \<le> 0x9F else True)
             then Some ((b0 - 0xE0) * 4096 + (b1 - 0x80) * 64 + (b2 - 0x80), 2)
             else None
         | _ \<Rightarrow> None)
      else if 0xF0 \<le> b0 \<and> b0 \<le> 0xF4 then
        (case bs of
           b1 # b2 # b3 # r \<Rightarrow>
             if cont_byte b1 \<and> cont_byte b2 \<and> cont_byte b3
                \<and> (if b0 = 0xF0 then 0x90 \<le> b1 else True)
                \<and> (if b0 = 0xF4 then b1 \<le> 0x8F else True)
             then Some ((b0 - 0xF0) * 262144 + (b1 - 0x80) * 4096
                        + (b2 - 0x80) * 64 + (b3 - 0x80), 3)
             else None
         | _ \<Rightarrow> None)
      else None)"

function utf8_points :: "nat list \<Rightarrow> ustr option" where
  "utf8_points [] = Some []"
| "utf8_points (b0 # bs) =
     (case utf8_first b0 bs of
        None \<Rightarrow> None
      | Some (cp, k) \<Rightarrow> map_option (Cons cp) (utf8_points (drop k bs)))"
  by pat_completeness auto
termination
  by (relation "measure length") auto

definition decode_utf8 :: "bytes \<Rightarrow> ustr option" where
  "decode_utf8 bs = utf8_points (map of_char bs)"

subsection \<open>\<^verbatim>\<open>str.strip()\<close>, \<^verbatim>\<open>str.startswith\<close>, \<^verbatim>\<open>str.lower()\<close>, \<^verbatim>\<open>str.split('.')\<close>\<close>

text \<open>The code points for which Python's \<^verbatim>\<open>str.isspace()\<close> holds.\<close>

definition isspace :: "nat \<Rightarrow> bool" where
  "isspace c =
     ((0x09 \<le> c \<and> c \<le> 0x0D) \<or> (0x1C \<le> c \<and> c \<le> 0x20) \<or> c = 0x85 \<or> c = 0xA0
      \<or> c = 0x1680 \<or> (0x2000 \<le> c \<and> c \<le> 0x200A) \<or> c = 0x2028 \<or> c = 0x2029
      \<or> c = 0x202F \<or> c = 0x205F \<or> c = 0x3000)"

definition strip :: "ustr \<Rightarrow> ustr" where
  "strip s = rev (dropWhile isspace (rev (dropWhile isspace s)))"

definition startswith :: "ustr \<Rightarrow> ustr \<Rightarrow> bool" where
  "startswith s p = (take (length p) s = p)"

section \<open>Exceptions (kimiai/exceptions.py and the library's)\<close>

text \<open>
  Every exception the code raises or can receive is a value. \<open>RequestsError\<close> is the HTTP
  library's error, \<open>CookieConflict\<close> the one of its cookie store; \<open>RequestsError\<close> carries the status code and text of its \<^verbatim>\<open>response\<close> attribute
  when there is one. \<open>APIError\<close> has the fields \<^verbatim>\<open>status_code\<close> and
  \<^verbatim>\<open>response_text\<close>; the last argument of the package's exceptions is the cause they
  were raised \<^verbatim>\<open>from\<close>. \<open>FileUploadError\<close> carries the file path its message quotes.
\<close>

datatype auth_failure = CookieFileNotFound ustr | TokenNotFound | FailedToLoad

datatype exn =
    RequestsError "(int \<times> ustr) option"
  | UnicodeDecodeError
  | JSONDecodeError
  | ValueError
  | RecursionError
  | CookieConflict
  | AttributeError
  | TypeError
  | KeyError ustr
  | OtherError
  | FileNotFoundError ustr
  | AuthenticationError auth_failure "exn option"
  | APIError int ustr exn
  | KimiException exn
  | FileUploadError ustr exn

section \<open>JSON values and \<^verbatim>\<open>json.loads\<close>\<close>

text \<open>
  The Python values that \<^verbatim>\<open>json.loads\<close> produces. \<open>JNull\<close> is Python's
  \<^verbatim>\<open>None\<close>. A \<^verbatim>\<open>dict\<close> is an association list in insertion order with
  distinct keys. A float is kept as the text it was read from: nothing here depends on its
  numeric value.

  Two limits of the interpreter decide whether \<^verbatim>\<open>json.loads\<close> returns at all: the
  longest integer literal that \<^verbatim>\<open>int\<close> converts
  (\<^verbatim>\<open>sys.get_int_max_str_digits()\<close>, 4300 unless changed, 0 for no limit; beyond it
  \<^verbatim>\<open>ValueError\<close> is raised), and the number of nested arrays and objects the decoder
  can enter before the recursion limit stops it with \<^verbatim>\<open>RecursionError\<close>, which
  depends on the interpreter and on where the decoder is called.
\<close>

record limits =
  int_max_str_digits :: nat
  recursion_room :: nat

datatype json =
    JNull
  | JBool bool
  | JInt int
  | JFloat ustr
  | JString ustr
  | JArray "json list"
  | JObject "(ustr \<times> json) list"

definition json_ws :: "nat \<Rightarrow> bool" where
  "json_ws c = (c = 0x20 \<or> c = 0x09 \<or> c = 0x0A \<or> c = 0x0D)"

definition is_digit :: "nat \<Rightarrow> bool" where
  "is_digit c = (48 \<le> c \<and> c \<le> 57)"

definition hex_digit :: "nat \<Rightarrow> nat option" where
  "hex_digit c =
     (if 48 \<le> c \<and> c \<le> 57 then Some (c - 48)
      else if 97 \<le> c \<and> c \<le> 102 then Some (c - 87)
      else if 65 \<le> c \<and> c \<le> 70 then Some (c - 55)
      else None)"

fun hex4 :: "ustr \<Rightarrow> nat option" where
  "hex4 (a # b # c # d # rest) =
     (case (hex_digit a, hex_digit b, hex_digit c, hex_digit d) of
        (Some x, Some y, Some z, Some w) \<Rightarrow> Some (((x * 16 + y) * 16 + z) * 16 + w)
      | _ \<Rightarrow> None)"
| "hex4 _ = None"

definition unescape :: "nat \<Rightarrow> nat option" where
  "unescape e =
     (if e = 34 then Some 34 else if e = 92 then Some 92 else if e = 47 then Some 47
      else if e = 98 then Some 8 else if e = 102 then Some 12 else if e = 110 then Some 10
      else if e = 114 then Some 13 else if e = 116 then Some 9 else None)"

text \<open>
  After a \<^verbatim>\<open>\uXXXX\<close> escape that is a high surrogate, a following escape that is a
  low surrogate is joined with it.
\<close>

definition low_surrogate_after :: "nat \<Rightarrow> ustr \<Rightarrow> nat option" where
  "low_surrogate_after u rest =
     (if 0xD800 \<le> u \<and> u \<le> 0xDBFF then
        (case rest of
           b # v # hs \<Rightarrow>
             if b = 92 \<and> v = 117 then
               (case hex4 hs of
                  Some u2 \<Rightarrow> if 0xDC00 \<le> u2 \<and> u2 \<le> 0xDFFF then Some u2 else None
                | None \<Rightarrow> None)
             else None
         | _ \<Rightarrow> None)
      else None)"

text \<open>
  \<open>scanstring acc n cs\<close> reads a string body up to its closing quote (strict mode: no
  control characters). Like the library's scanner it returns the string and the position
  after the quote; \<open>n\<close> counts the characters read so far.
\<close>

function scanstring :: "ustr \<Rightarrow> nat \<Rightarrow> ustr \<Rightarrow> (ustr \<times> nat) option" where
  "scanstring acc n [] = None"
| "scanstring acc n (c # cs) =
     (if c = 34 then Some (rev acc, Suc n)
      else if c = 92 then
        (case cs of
           [] \<Rightarrow> None
         | e # es \<Rightarrow>
             if e = 117 then
               (case hex4 es of
                  None \<Rightarrow> None
                | Some u \<Rightarrow>
                    (case low_surrogate_after u (drop 4 es) of
                       Some u2 \<Rightarrow>
                         scanstring
                           ((0x10000 + (u - 0xD800) * 1024 + (u2 - 0xDC00)) # acc)
                           (n + 12) (drop 10 es)
                     | None \<Rightarrow> scanstring (u # acc) (n + 6) (drop 4 es)))
             else
               (case unescape e of
                  None \<Rightarrow> None
                | Some x \<Rightarrow> scanstring (x # acc) (n + 2) es))
      else if c < 32 then None
      else scanstring (c # acc) (Suc n) cs)"
  by pat_completeness auto
termination
  by (relation "measure (\<lambda>(acc, n, cs). length cs)") auto

text \<open>
  Numbers follow the pattern \<^verbatim>\<open>-?(0|[1-9][0-9]*)(\.[0-9]+)?([eE][-+]?[0-9]+)?\<close>.
  Each matcher returns the number of characters it matched.
\<close>

definition digits_value :: "ustr \<Rightarrow> int" where
  "digits_value ds = foldl (\<lambda>n d. n * 10 + (int d - 48)) 0 ds"

definition match_int :: "ustr \<Rightarrow> nat option" where
  "match_int s =
     (case s of
        [] \<Rightarrow> None
      | c # r \<Rightarrow>
          if c = 48 then Some 1
          else if 49 \<le> c \<and> c \<le> 57 then Some (Suc (length (takeWhile is_digit r)))
          else None)"

definition match_frac :: "ustr \<Rightarrow> nat" where
  "match_frac s =
     (case s of
        c # d # r \<Rightarrow>
          if c = 46 \<and> is_digit d then 2 + length (takeWhile is_digit r) else 0
      | _ \<Rightarrow> 0)"

definition match_exp :: "ustr \<Rightarrow> nat" where
  "match_exp s =
     (case s of
        c # r \<Rightarrow>
          if c = 101 \<or> c = 69 then
            (case r of
               d # r' \<Rightarrow>
                 if is_digit d then 2 + length (takeWhile is_digit r')
                 else if d = 43 \<or> d = 45 then
                   (case r' of
                      d' # r'' \<Rightarrow>
                        if is_digit d' then 3 + length (takeWhile is_digit r'') else 0
                    | [] \<Rightarrow> 0)
                 else 0
             | [] \<Rightarrow> 0)
          else 0
      | [] \<Rightarrow> 0)"

datatype token =
    TLBrace | TRBrace | TLBracket | TRBracket | TColon | TComma
  | TValue json | TInt int nat | TBad

text \<open>
  An integer literal becomes \<open>TInt\<close> with its value and its number of digits: the
  conversion, and with it the digit limit, only happens where the grammar takes a value.
\<close>

definition match_number :: "ustr \<Rightarrow> (token \<times> nat) option" where
  "match_number s =
     (let sign = (if take 1 s = [45] then 1 else 0) in
      case match_int (drop sign s) of
        None \<Rightarrow> None
      | Some n \<Rightarrow>
          (let f = match_frac (drop (sign + n) s);
               e = match_exp (drop (sign + n + f) s)
           in if f = 0 \<and> e = 0
              then Some (TInt ((if sign = 1 then - 1 else 1)
                               * digits_value (take n (drop sign s))) n,
                         sign + n)
              else Some (TValue (JFloat (take (sign + n + f + e) s)), sign + n + f + e)))"

text \<open>The scanner's order for values that are neither strings nor containers.\<close>

definition scan_atom :: "ustr \<Rightarrow> (token \<times> nat) option" where
  "scan_atom s =
     (if take 4 s = ascii ''null'' then Some (TValue JNull, 4)
      else if take 4 s = ascii ''true'' then Some (TValue (JBool True), 4)
      else if take 5 s = ascii ''false'' then Some (TValue (JBool False), 5)
      else
        (case match_number s of
           Some r \<Rightarrow> Some r
         | None \<Rightarrow>
             if take 3 s = ascii ''NaN'' then Some (TValue (JFloat (ascii ''NaN'')), 3)
             else if take 8 s = ascii ''Infinity''
             then Some (TValue (JFloat (ascii ''Infinity'')), 8)
             else if take 9 s = ascii ''-Infinity''
             then Some (TValue (JFloat (ascii ''-Infinity'')), 9)
             else None))"

text \<open>
  The tokens of a text, up to the first place where no token starts, which is marked
  \<open>TBad\<close>.
\<close>

function tokens :: "ustr \<Rightarrow> token list" where
  "tokens [] = []"
| "tokens (c # cs) =
     (if json_ws c then tokens cs
      else if c = 123 then TLBrace # tokens cs
      else if c = 125 then TRBrace # tokens cs
      else if c = 91 then TLBracket # tokens cs
      else if c = 93 then TRBracket # tokens cs
      else if c = 58 then TColon # tokens cs
      else if c = 44 then TComma # tokens cs
      else if c = 34 then
        (case scanstring [] 0 cs of
           None \<Rightarrow> [TBad]
         | Some (s, k) \<Rightarrow> TValue (JString s) # tokens (drop k cs))
      else
        (case scan_atom (c # cs) of
           None \<Rightarrow> [TBad]
         | Some (t, n) \<Rightarrow> t # tokens (drop (n - 1) cs)))"
  by pat_completeness auto
termination
  by (relation "measure length") auto

text \<open>
  The grammar is checked by a stack machine over the tokens, in their order, so that the
  first error met is the one raised: one frame for each open array or object. A repeated
  key keeps its first position and takes the last value, as a Python \<^verbatim>\<open>dict\<close> does.
\<close>

datatype frame = FArray "json list" | FObject "(ustr \<times> json) list" "ustr option"

datatype expect =
    Value | ValueOrClose | Key | KeyOrClose | Colon | CommaOrClose | Finished json

type_synonym parse = "exn + frame list \<times> expect"

fun complete :: "json \<Rightarrow> frame list \<Rightarrow> parse" where
  "complete v [] = Inr ([], Finished v)"
| "complete v (FArray xs # st) = Inr (FArray (v # xs) # st, CommaOrClose)"
| "complete v (FObject kvs (Some k) # st) =
     Inr (FObject (AList.update k v kvs) None # st, CommaOrClose)"
| "complete v (FObject kvs None # st) = Inl JSONDecodeError"

fun open_value :: "limits \<Rightarrow> token \<Rightarrow> frame list \<Rightarrow> parse" where
  "open_value lim (TValue v) st = complete v st"
| "open_value lim (TInt i n) st =
     (if 0 < int_max_str_digits lim \<and> int_max_str_digits lim < n then Inl ValueError
      else complete (JInt i) st)"
| "open_value lim TLBracket st =
     (if recursion_room lim \<le> length st then Inl RecursionError
      else Inr (FArray [] # st, ValueOrClose))"
| "open_value lim TLBrace st =
     (if recursion_room lim \<le> length st then Inl RecursionError
      else Inr (FObject [] None # st, KeyOrClose))"
| "open_value lim t st = Inl JSONDecodeError"

fun open_key :: "token \<Rightarrow> frame list \<Rightarrow> parse" where
  "open_key (TValue (JString k)) (FObject kvs None # st) =
     Inr (FObject kvs (Some k) # st, Colon)"
| "open_key t st = Inl JSONDecodeError"

fun close_frame :: "token \<Rightarrow> frame list \<Rightarrow> parse" where
  "close_frame TRBracket (FArray xs # st) = complete (JArray (rev xs)) st"
| "close_frame TRBrace (FObject kvs None # st) = complete (JObject kvs) st"
| "close_frame t st = Inl JSONDecodeError"

fun step :: "limits \<Rightarrow> frame list \<times> expect \<Rightarrow> token \<Rightarrow> parse" where
  "step lim (st, Value) t = open_value lim t st"
| "step lim (st, ValueOrClose) t =
     (if t = TRBracket then close_frame t st else open_value lim t st)"
| "step lim (st, Key) t = open_key t st"
| "step lim (st, KeyOrClose) t = (if t = TRBrace then close_frame t st else open_key t st)"
| "step lim (st, Colon) t = (if t = TColon then Inr (st, Value) else Inl JSONDecodeError)"
| "step lim (st, CommaOrClose) t =
     (if t = TComma then
        (case st of
           FArray xs # _ \<Rightarrow> Inr (st, Value)
         | FObject kvs k # _ \<Rightarrow> Inr (st, Key)
         | [] \<Rightarrow> Inl JSONDecodeError)
      else close_frame t st)"
| "step lim (st, Finished v) t = Inl JSONDecodeError"

fun run :: "limits \<Rightarrow> frame list \<times> expect \<Rightarrow> token list \<Rightarrow> parse" where
  "run lim s [] = Inr s"
| "run lim s (t # ts) = (case step lim s t of Inl x \<Rightarrow> Inl x | Inr s' \<Rightarrow> run lim s' ts)"

definition json_loads :: "limits \<Rightarrow> ustr \<Rightarrow> exn + json" where
  "json_loads lim s =
     (case run lim ([], Value) (tokens s) of
        Inl x \<Rightarrow> Inl x
      | Inr ([], Finished v) \<Rightarrow> Inr v
      | Inr other \<Rightarrow> Inl JSONDecodeError)"

section \<open>Strings of names and URLs\<close>

text \<open>
  \<open>split_on c s\<close> is \<^verbatim>\<open>s.split(c)\<close> for a one-character separator; the result is
  never empty. \<open>lower\<close> maps \<^verbatim>\<open>A-Z\<close> to \<^verbatim>\<open>a-z\<close> and leaves code points outside
  ASCII as they are: Python lowers some of those too, but never to a word of ASCII letters
  among \<^verbatim>\<open>png jpg jpeg webp gif\<close>, the only words the result is compared with.
\<close>

fun split_on :: "nat \<Rightarrow> ustr \<Rightarrow> ustr list" where
  "split_on c [] = [[]]"
| "split_on c (x # xs) =
     (if x = c then [] # split_on c xs
      else (case split_on c xs of
              p # ps \<Rightarrow> (x # p) # ps
            | [] \<Rightarrow> [[x]]))"

definition lower :: "ustr \<Rightarrow> ustr" where
  "lower s = map (\<lambda>c. if 65 \<le> c \<and> c \<le> 90 then c + 32 else c) s"

text \<open>\<^verbatim>\<open>os.path.basename\<close>: the text after the last \<^verbatim>\<open>/\<close>.\<close>

definition basename :: "ustr \<Rightarrow> ustr" where
  "basename p = last (split_on 47 p)"



subsection \<open>\<^verbatim>\<open>dict.get\<close> and \<^verbatim>\<open>d[key]\<close>\<close>

text \<open>\<^verbatim>\<open>d.get(key, default)\<close> and \<^verbatim>\<open>d[key]\<close> on a value that came from JSON.\<close>

fun py_get :: "json \<Rightarrow> ustr \<Rightarrow> json \<Rightarrow> exn + json" where
  "py_get (JObject kvs) k d = Inr (case map_of kvs k of Some v \<Rightarrow> v | None \<Rightarrow> d)"
| "py_get _ k d = Inl AttributeError"

fun py_getitem :: "json \<Rightarrow> ustr \<Rightarrow> exn + json" where
  "py_getitem (JObject kvs) k = (case map_of kvs k of Some v \<Rightarrow> Inr v | None \<Rightarrow> Inl (KeyError k))"
| "py_getitem _ k = Inl TypeError"

section \<open>Data models (kimiai/models.py)\<close>

record KimiMessage =
  role :: ustr
  content :: ustr

record UploadedFile =
  uf_id :: json
  uf_name :: json
  uf_object_name :: json
  uf_file_type :: json
  uf_meta :: json

datatype StreamEvent =
    CompletionChunk (event: ustr) (chunk_text: json)
  | SearchInfo (event: ustr) (hallucination: json) (search_type: json)
  | StatusUpdate (event: ustr)

section \<open>The HTTP library and the file system\<close>

text \<open>
  A response object of the HTTP library: \<open>body_lines\<close> is what \<^verbatim>\<open>aiter_lines()\<close>
  yields and \<open>body_end\<close> the exception that ends the iteration, if one does;
  \<open>resp_text\<close> is its \<^verbatim>\<open>text\<close> once the body has been read, which
  \<^verbatim>\<open>response.json()\<close> parses. \<open>ok\<close> is the library's flag that
  \<^verbatim>\<open>raise_for_status()\<close> tests: the status is at least 200 and below 400, so that a
  3xx response is accepted. The error that \<^verbatim>\<open>raise_for_status()\<close> raises carries the
  response itself. A response to a request made with \<^verbatim>\<open>stream=True\<close> has an empty
  \<^verbatim>\<open>text\<close> as long as its body has not been read (\<open>unread\<close>).
\<close>

record response =
  status_code :: int
  resp_text :: ustr
  body_lines :: "bytes list"
  body_end :: "exn option"

definition ok :: "response \<Rightarrow> bool" where
  "ok r = (200 \<le> status_code r \<and> status_code r < 400)"

definition unread :: "response \<Rightarrow> response" where
  "unread r = r\<lparr>resp_text := []\<rparr>"

definition raise_for_status :: "response \<Rightarrow> exn option" where
  "raise_for_status r =
     (if ok r then None else Some (RequestsError (Some (status_code r, resp_text r))))"

definition response_json :: "limits \<Rightarrow> response \<Rightarrow> exn + json" where
  "response_json lim r = json_loads lim (resp_text r)"

text \<open>
  A URL is kept as the pieces of the f-string that builds it: literal text and values that
  \<^verbatim>\<open>str()\<close> formats.
\<close>

datatype url_part = Lit ustr | Val json


datatype body = Json json | Data bytes

record request =
  via :: nat
  verb :: ustr
  url :: "url_part list"
  body :: body
  stream :: bool

text \<open>
  A cookie jar keeps one cookie for each domain, path and name, as nested dictionaries in
  insertion order; iterating over it goes through the domains, their paths and their names
  in that order. \<open>alter k f d\<close> is \<^verbatim>\<open>m[k] = f(m.get(k, d))\<close>. The value of a
  cookie is \<^verbatim>\<open>None\<close> when its line in the cookie file has an empty name field: the
  loader then takes the value field as the name.
\<close>

datatype cookie =
  Cookie (c_domain: ustr) (c_path: ustr) (c_name: ustr) (c_value: "ustr option")

type_synonym cookiejar = "(ustr \<times> (ustr \<times> (ustr \<times> ustr option) list) list) list"

fun alter :: "'k \<Rightarrow> ('v \<Rightarrow> 'v) \<Rightarrow> 'v \<Rightarrow> ('k \<times> 'v) list \<Rightarrow> ('k \<times> 'v) list" where
  "alter k f d [] = [(k, f d)]"
| "alter k f d ((k', v) # kvs) =
     (if k' = k then (k', f v) # kvs else (k', v) # alter k f d kvs)"

definition set_cookie :: "cookiejar \<Rightarrow> cookie \<Rightarrow> cookiejar" where
  "set_cookie jar c =
     alter (c_domain c) (alter (c_path c) (alter (c_name c) (\<lambda>old. c_value c) None) []) []
       jar"

definition jar_cookies :: "cookiejar \<Rightarrow> cookie list" where
  "jar_cookies jar =
     concat (map (\<lambda>(d, paths).
               concat (map (\<lambda>(p, names). map (\<lambda>(n, v). Cookie d p n v) names) paths))
             jar)"

text \<open>
  \<^verbatim>\<open>MozillaCookieJar.load\<close> sets the cookies of the file's lines one after the other,
  and \<^verbatim>\<open>session.cookies.update(jar)\<close> sets the cookies of the jar in the session's.
\<close>

definition jar_of :: "cookie list \<Rightarrow> cookiejar" where
  "jar_of entries = foldl set_cookie [] entries"

definition jar_update :: "cookiejar \<Rightarrow> cookiejar \<Rightarrow> cookiejar" where
  "jar_update jar new = foldl set_cookie jar (jar_cookies new)"

text \<open>
  \<^verbatim>\<open>session.cookies.get(name)\<close> of the HTTP library goes through the cookies with
  \<^verbatim>\<open>value\<close> and \<^verbatim>\<open>matched_domain\<close>, initially \<^verbatim>\<open>None\<close> and the empty
  string. It returns the value of the last cookie of that name, unless it meets a cookie of
  that name whose value differs from the one kept, on a domain of which neither ends with
  the other; then it raises \<open>CookieConflict\<close>.
\<close>

definition endswith :: "ustr \<Rightarrow> ustr \<Rightarrow> bool" where
  "endswith s suffix = (take (length suffix) (rev s) = rev suffix)"

fun cookie_scan :: "ustr \<Rightarrow> cookie list \<Rightarrow> ustr option \<Rightarrow> ustr \<Rightarrow> exn + ustr option" where
  "cookie_scan n [] val matched_domain = Inr val"
| "cookie_scan n (c # cs) val matched_domain =
     (if c_name c = n then
        if val \<noteq> None \<and> \<not> endswith matched_domain (c_domain c)
           \<and> \<not> endswith (c_domain c) matched_domain \<and> val \<noteq> c_value c
        then Inl CookieConflict
        else cookie_scan n cs (c_value c) (c_domain c)
      else cookie_scan n cs val matched_domain)"

definition cookies_get :: "cookiejar \<Rightarrow> ustr \<Rightarrow> exn + ustr option" where
  "cookies_get jar n = cookie_scan n (jar_cookies jar) None []"

text \<open>An \<^verbatim>\<open>AsyncSession\<close> object: default headers, cookie jar, and whether it was closed.\<close>

record AsyncSession =
  headers :: "ustr \<rightharpoonup> ustr"
  cookies :: cookiejar
  closed :: bool

text \<open>
  What the code cannot decide itself: the limits of the interpreter, the file system, the
  cookies that the lines of a cookie file hold (or the exception that reading them raises),
  the random header values, and the HTTP library, which answers a request from the
  requests made before, the request and the session object.
\<close>

record env =
  interp :: limits
  path_exists :: "ustr \<Rightarrow> bool"
  read_file :: "ustr \<Rightarrow> exn + bytes"
  load_cookie_file :: "ustr \<Rightarrow> exn + cookie list"
  random_ids :: "nat \<Rightarrow> ustr \<times> ustr \<times> ustr"
  send :: "request list \<Rightarrow> request \<Rightarrow> AsyncSession \<Rightarrow> exn + response"

text \<open>
  The mutable world: the session objects, by reference, and the requests handed to the HTTP
  library so far, oldest first.
\<close>

record world =
  heap :: "nat \<Rightarrow> AsyncSession"
  next_ref :: nat
  trace :: "request list"

definition perform :: "env \<Rightarrow> request \<Rightarrow> world \<Rightarrow> (exn + response) \<times> world" where
  "perform ev req w =
     (send ev (trace w) req (heap w (via req)), w\<lparr>trace := trace w @ [req]\<rparr>)"

text \<open>
  The two handlers that close \<^verbatim>\<open>_make_request\<close> and \<^verbatim>\<open>send_message_stream\<close>:
  \<^verbatim>\<open>except RequestsError as e\<close> raises \<open>APIError\<close> with
  \<^verbatim>\<open>e.response.status_code if e.response else 0\<close> and
  \<^verbatim>\<open>e.response.text if e.response else "No response"\<close>;
  \<^verbatim>\<open>except Exception as e\<close> raises \<open>KimiException\<close>.
\<close>

fun translate :: "exn \<Rightarrow> exn" where
  "translate (RequestsError (Some (st, tx))) = APIError st tx (RequestsError (Some (st, tx)))"
| "translate (RequestsError None) = APIError 0 (ascii ''No response'') (RequestsError None)"
| "translate x = KimiException x"

section \<open>kimiai/chat.py\<close>

record KimiChat =
  chat_id :: json
  chat_session :: "nat option"
  chat_base_url :: ustr

datatype line_result = Skip | Emit StreamEvent | Raise exn

text \<open>The body of the \<^verbatim>\<open>async for\<close> loop of \<^verbatim>\<open>send_message_stream\<close>, for one line.\<close>

definition dispatch :: "json \<Rightarrow> line_result" where
  "dispatch data =
     (case py_get data (ascii ''event'') JNull of
        Inl x \<Rightarrow> Raise x
      | Inr event_type \<Rightarrow>
          if event_type = JString (ascii ''cmpl'') then
            (case py_get data (ascii ''text'') (JString []) of
               Inl x \<Rightarrow> Raise x
             | Inr t \<Rightarrow> Emit (CompletionChunk (ascii ''cmpl'') t))
          else if event_type = JString (ascii ''search_info'') then
            (case py_get data (ascii ''hallucination'') (JObject []) of
               Inl x \<Rightarrow> Raise x
             | Inr h \<Rightarrow>
                 (case py_get data (ascii ''search_type'') (JString []) of
                    Inl x \<Rightarrow> Raise x
                  | Inr t \<Rightarrow> Emit (SearchInfo (ascii ''search_info'') h t)))
          else if event_type = JString (ascii ''status'') then
            Emit (StatusUpdate (ascii ''status''))
          else Skip)"

definition process_line :: "limits \<Rightarrow> bytes \<Rightarrow> line_result" where
  "process_line lim line_bytes =
     (case decode_utf8 line_bytes of
        None \<Rightarrow> Raise UnicodeDecodeError
      | Some decoded \<Rightarrow>
          (let line = strip decoded in
           if \<not> startswith line (ascii ''data:'') then Skip
           else
             (let data_str = strip (drop 5 line) in
              if data_str = [] then Skip
              else
                (case json_loads lim data_str of
                   Inl x \<Rightarrow> (if x = JSONDecodeError then Skip else Raise x)
                 | Inr data \<Rightarrow> dispatch data))))"

text \<open>
  The loop over \<^verbatim>\<open>response.aiter_lines()\<close>: the events yielded, in the order of the
  \<^verbatim>\<open>yield\<close>s, and the exception that leaves the loop, if any. \<open>ending\<close> is the
  exception the iterator itself raises after the last line. Of the exceptions of
  \<^verbatim>\<open>json.loads\<close> only \<^verbatim>\<open>JSONDecodeError\<close> is caught inside the loop.
\<close>

fun decode_lines ::
  "limits \<Rightarrow> bytes list \<Rightarrow> exn option \<Rightarrow> StreamEvent list \<times> exn option" where
  "decode_lines lim [] ending = ([], ending)"
| "decode_lines lim (l # ls) ending =
     (case process_line lim l of
        Skip \<Rightarrow> decode_lines lim ls ending
      | Emit ev \<Rightarrow> (case decode_lines lim ls ending of (evs, x) \<Rightarrow> (ev # evs, x))
      | Raise x \<Rightarrow> ([], Some x))"

definition stream_url :: "KimiChat \<Rightarrow> url_part list" where
  "stream_url chat =
     [Lit (chat_base_url chat), Lit (ascii ''/chat/''), Val (chat_id chat),
      Lit (ascii ''/completion/stream'')]"

definition stream_payload :: "ustr \<Rightarrow> KimiMessage list \<Rightarrow> bool \<Rightarrow> json list \<Rightarrow> json" where
  "stream_payload prompt history use_search file_ids =
     JObject
       [(ascii ''messages'',
           JArray [JObject [(ascii ''role'', JString (ascii ''user'')),
                            (ascii ''content'', JString prompt)]]),
        (ascii ''history'',
           JArray (map (\<lambda>msg. JObject [(ascii ''role'', JString (role msg)),
                                       (ascii ''content'', JString (content msg))])
                       history)),
        (ascii ''kimiplus_id'', JString (ascii ''kimi'')),
        (ascii ''model'', JString (ascii ''k2'')),
        (ascii ''use_search'', JBool use_search),
        (ascii ''refs'', JArray file_ids),
        (ascii ''extend'', JObject [(ascii ''sidebar'', JBool True)]),
        (ascii ''scene_labels'', JArray []),
        (ascii ''use_deep_research'', JBool False),
        (ascii ''use_semantic_memory'', JBool False)]"

text \<open>
  The generator as a whole: the events it yields before it ends, the exception it ends
  with (\<open>None\<close>: it ends normally), and the world after it.
\<close>

definition send_message_stream ::
  "env \<Rightarrow> KimiChat \<Rightarrow> ustr \<Rightarrow> KimiMessage list \<Rightarrow> bool \<Rightarrow> json list \<Rightarrow> world
     \<Rightarrow> (StreamEvent list \<times> exn option) \<times> world" where
  "send_message_stream ev chat prompt history use_search file_ids w =
     (case chat_session chat of
        None \<Rightarrow> (([], Some (KimiException AttributeError)), w)
      | Some r \<Rightarrow>
          (case perform ev
                  \<lparr>via = r, verb = ascii ''POST'', url = stream_url chat,
                   body = Json (stream_payload prompt history use_search file_ids),
                   stream = True\<rparr> w of
             (Inl x, w') \<Rightarrow> (([], Some (translate x)), w')
           | (Inr resp, w') \<Rightarrow>
               (case raise_for_status (unread resp) of
                  Some x \<Rightarrow> (([], Some (translate x)), w')
                | None \<Rightarrow>
                    (case decode_lines (interp ev) (body_lines resp) (body_end resp) of
                       (evs, x) \<Rightarrow> ((evs, map_option translate x), w')))))"

section \<open>kimiai/engine.py\<close>

text \<open>
  The engine holds a reference to its session object, or none. The constructor's
  \<^verbatim>\<open>impersonate\<close>, \<^verbatim>\<open>timeout\<close> and \<^verbatim>\<open>proxies\<close> are handed to the session's
  constructor and decide nothing in this code; they and the log messages are left out.
  An operation returns its result, or the exception it raises, together with the engine and
  the world as it leaves them.
\<close>

record KimiAIEngine =
  base_url :: ustr
  cookies_path :: ustr
  session :: "nat option"
  is_initialized :: bool

type_synonym state = "KimiAIEngine \<times> world"

definition new_engine :: "ustr \<Rightarrow> KimiAIEngine" where
  "new_engine path =
     \<lparr>base_url = ascii ''https://www.kimi.com/api'', cookies_path = path,
      session = None, is_initialized = False\<rparr>"

definition default_headers :: "ustr \<times> ustr \<times> ustr \<Rightarrow> (ustr \<rightharpoonup> ustr)" where
  "default_headers ids =
     (case ids of (device_id, session_id, traffic_id) \<Rightarrow>
        map_of
          [(ascii ''Accept'', ascii ''application/json, text/plain, */*''),
           (ascii ''Accept-Language'', ascii ''ru-RU,ru;q=0.9,en-US;q=0.8''),
           (ascii ''Content-Type'', ascii ''application/json''),
           (ascii ''Origin'', ascii ''https://www.kimi.com''),
           (ascii ''Referer'', ascii ''https://www.kimi.com/''),
           (ascii ''User-Agent'',
              ascii ''Mozilla/5.0 (Windows NT 10.0; Win64; x64) AppleWebKit/537.36 (KHTML, like Gecko) Chrome/124.0.0.0 Safari/537.36''),
           (ascii ''X-Language'', ascii ''en-US''),
           (ascii ''X-Msh-Platform'', ascii ''web''),
           (ascii ''x-msh-device-id'', device_id),
           (ascii ''x-msh-session-id'', session_id),
           (ascii ''x-traffic-id'', traffic_id)])"

definition token_missing :: exn where
  "token_missing = AuthenticationError FailedToLoad (Some (AuthenticationError TokenNotFound None))"

text \<open>
  \<^verbatim>\<open>_load_cookies\<close>. The check of the path is outside the \<^verbatim>\<open>try\<close>; every exception
  inside it, the \<open>AuthenticationError\<close> for the missing token included, is raised again
  as \<open>AuthenticationError\<close> by \<^verbatim>\<open>except Exception\<close>.
\<close>

definition load_cookies :: "env \<Rightarrow> state \<Rightarrow> (exn + unit) \<times> state" where
  "load_cookies ev st =
     (case st of (e, w) \<Rightarrow>
        if \<not> path_exists ev (cookies_path e)
        then (Inl (AuthenticationError (CookieFileNotFound (cookies_path e)) None), st)
        else
          (case load_cookie_file ev (cookies_path e) of
             Inl x \<Rightarrow> (Inl (AuthenticationError FailedToLoad (Some x)), st)
           | Inr entries \<Rightarrow>
               (case session e of
                  None \<Rightarrow> (Inl (AuthenticationError FailedToLoad (Some AttributeError)), st)
                | Some r \<Rightarrow>
                    (let s = heap w r;
                         s1 = s\<lparr>cookies := jar_update (cookies s) (jar_of entries)\<rparr>;
                         w1 = w\<lparr>heap := (heap w)(r := s1)\<rparr>
                     in case cookies_get (cookies s1) (ascii ''kimi-auth'') of
                          Inl x \<Rightarrow> (Inl (AuthenticationError FailedToLoad (Some x)), (e, w1))
                        | Inr None \<Rightarrow> (Inl token_missing, (e, w1))
                        | Inr (Some auth_token) \<Rightarrow>
                            if auth_token = [] then (Inl token_missing, (e, w1))
                            else
                              (Inr (),
                               (e, w1\<lparr>heap := (heap w1)
                                      (r := s1\<lparr>headers := (headers s1)
                                           (ascii ''Authorization'' \<mapsto>
                                              ascii ''Bearer '' @ auth_token)\<rparr>)\<rparr>))))))"

definition initialize_session :: "env \<Rightarrow> state \<Rightarrow> (exn + unit) \<times> state" where
  "initialize_session ev st =
     (case st of (e, w) \<Rightarrow>
        if is_initialized e then (Inr (), st)
        else
          (let r = next_ref w;
               s = \<lparr>headers = default_headers (random_ids ev r), cookies = [],
                    closed = False\<rparr>;
               e1 = e\<lparr>session := Some r\<rparr>;
               w1 = w\<lparr>heap := (heap w)(r := s), next_ref := Suc r\<rparr>
           in case load_cookies ev (e1, w1) of
                (Inl x, st') \<Rightarrow> (Inl x, st')
              | (Inr u, (e2, w2)) \<Rightarrow> (Inr (), (e2\<lparr>is_initialized := True\<rparr>, w2))))"

definition make_request ::
  "env \<Rightarrow> ustr \<Rightarrow> url_part list \<Rightarrow> body \<Rightarrow> state \<Rightarrow> (exn + response) \<times> state" where
  "make_request ev meth u b st =
     (case (if session (fst st) = None then initialize_session ev st else (Inr (), st)) of
        (Inl x, st') \<Rightarrow> (Inl x, st')
      | (Inr u0, (e, w)) \<Rightarrow>
          (case session e of
             None \<Rightarrow> (Inl (KimiException AttributeError), (e, w))
           | Some r \<Rightarrow>
               (case perform ev \<lparr>via = r, verb = meth, url = u, body = b, stream = False\<rparr> w of
                  (Inl x, w') \<Rightarrow> (Inl (translate x), (e, w'))
                | (Inr resp, w') \<Rightarrow>
                    (case raise_for_status resp of
                       Some x \<Rightarrow> (Inl (translate x), (e, w'))
                     | None \<Rightarrow> (Inr resp, (e, w'))))))"

definition create_chat_payload :: "ustr \<Rightarrow> json" where
  "create_chat_payload name =
     JObject
       [(ascii ''name'', JString name), (ascii ''born_from'', JString (ascii ''home'')),
        (ascii ''kimiplus_id'', JString (ascii ''kimi'')), (ascii ''is_example'', JBool False),
        (ascii ''source'', JString (ascii ''web'')), (ascii ''tags'', JArray [])]"

definition create_chat :: "env \<Rightarrow> ustr \<Rightarrow> state \<Rightarrow> (exn + KimiChat) \<times> state" where
  "create_chat ev name st =
     (case make_request ev (ascii ''POST'') [Lit (base_url (fst st)), Lit (ascii ''/chat'')]
             (Json (create_chat_payload name)) st of
        (Inl x, st') \<Rightarrow> (Inl x, st')
      | (Inr resp, st') \<Rightarrow>
          (case response_json (interp ev) resp of
             Inl x \<Rightarrow> (Inl x, st')
           | Inr data \<Rightarrow>
               (case py_get data (ascii ''id'') JNull of
                  Inl x \<Rightarrow> (Inl x, st')
                | Inr cid \<Rightarrow>
                    (Inr \<lparr>chat_id = cid, chat_session = session (fst st'),
                          chat_base_url = base_url (fst st')\<rparr>, st'))))"

subsection \<open>\<^verbatim>\<open>upload_file\<close>\<close>

definition image_extensions :: "ustr list" where
  "image_extensions = [ascii ''png'', ascii ''jpg'', ascii ''jpeg'', ascii ''webp'', ascii ''gif'']"

text \<open>\<^verbatim>\<open>file_name.split('.')[-1].lower()\<close> and the test that follows it.\<close>

definition file_ext :: "ustr \<Rightarrow> ustr" where
  "file_ext file_name = lower (last (split_on 46 file_name))"

definition file_type_of :: "ustr \<Rightarrow> ustr" where
  "file_type_of file_name =
     (if file_ext file_name \<in> set image_extensions then ascii ''image'' else ascii ''file'')"

text \<open>Step 1: the pre-signed URL, through \<^verbatim>\<open>_make_request\<close>.\<close>

definition presign :: "env \<Rightarrow> ustr \<Rightarrow> ustr \<Rightarrow> state \<Rightarrow> (exn + json) \<times> state" where
  "presign ev file_name file_type st =
     (case make_request ev (ascii ''POST'')
             [Lit (base_url (fst st)), Lit (ascii ''/pre-sign-url'')]
             (Json (JObject [(ascii ''name'', JString file_name),
                             (ascii ''action'', JString file_type)])) st of
        (Inl x, st') \<Rightarrow> (Inl x, st')
      | (Inr resp, st') \<Rightarrow> (response_json (interp ev) resp, st'))"

text \<open>
  Step 2: the file is opened and read (\<open>read_file\<close>; its error is that of
  \<^verbatim>\<open>open\<close>) and its bytes are PUT to \<^verbatim>\<open>pre_sign_data['url']\<close> on the session
  directly, not through \<^verbatim>\<open>_make_request\<close>.
\<close>

definition put_content :: "env \<Rightarrow> ustr \<Rightarrow> json \<Rightarrow> state \<Rightarrow> (exn + unit) \<times> state" where
  "put_content ev file_path pre_sign_data st =
     (case st of (e, w) \<Rightarrow>
        (case read_file ev file_path of
           Inl x \<Rightarrow> (Inl x, st)
         | Inr file_bytes \<Rightarrow>
             (case session e of
                None \<Rightarrow> (Inl AttributeError, st)
              | Some r \<Rightarrow>
                  (case py_getitem pre_sign_data (ascii ''url'') of
                     Inl x \<Rightarrow> (Inl x, st)
                   | Inr u \<Rightarrow>
                       (case perform ev
                               \<lparr>via = r, verb = ascii ''PUT'', url = [Val u],
                                body = Data file_bytes, stream = False\<rparr> w of
                          (Inl x, w') \<Rightarrow> (Inl x, (e, w'))
                        | (Inr upload_response, w') \<Rightarrow>
                            (case raise_for_status upload_response of
                               Some x \<Rightarrow> (Inl x, (e, w'))
                             | None \<Rightarrow> (Inr (), (e, w'))))))))"

text \<open>
  Step 3: registration, through \<^verbatim>\<open>_make_request\<close>. The debug message that follows
  formats \<^verbatim>\<open>file_data['id']\<close>, which raises when the key is missing.
\<close>

definition register_file ::
  "env \<Rightarrow> ustr \<Rightarrow> ustr \<Rightarrow> json \<Rightarrow> state \<Rightarrow> (exn + json) \<times> state" where
  "register_file ev file_name file_type pre_sign_data st =
     (case py_getitem pre_sign_data (ascii ''object_name'') of
        Inl x \<Rightarrow> (Inl x, st)
      | Inr object_name \<Rightarrow>
          (case py_get pre_sign_data (ascii ''file_id'') (JString []) of
             Inl x \<Rightarrow> (Inl x, st)
           | Inr file_id \<Rightarrow>
               (case make_request ev (ascii ''POST'')
                       [Lit (base_url (fst st)), Lit (ascii ''/file'')]
                       (Json (JObject [(ascii ''name'', JString file_name),
                                       (ascii ''object_name'', object_name),
                                       (ascii ''type'', JString file_type),
                                       (ascii ''file_id'', file_id)])) st of
                  (Inl x, st') \<Rightarrow> (Inl x, st')
                | (Inr resp, st') \<Rightarrow>
                    (case response_json (interp ev) resp of
                       Inl x \<Rightarrow> (Inl x, st')
                     | Inr file_data \<Rightarrow>
                         (case py_getitem file_data (ascii ''id'') of
                            Inl x \<Rightarrow> (Inl x, st')
                          | Inr i \<Rightarrow> (Inr file_data, st'))))))"

text \<open>
  Step 4, for documents only: the parse request, on the session directly. Whether the
  response text holds the parsed marker only selects a log message.
\<close>

definition parse_process :: "env \<Rightarrow> json \<Rightarrow> state \<Rightarrow> (exn + unit) \<times> state" where
  "parse_process ev file_data st =
     (case st of (e, w) \<Rightarrow>
        (case session e of
           None \<Rightarrow> (Inl AttributeError, st)
         | Some r \<Rightarrow>
             (case py_getitem file_data (ascii ''id'') of
                Inl x \<Rightarrow> (Inl x, st)
              | Inr i \<Rightarrow>
                  (case perform ev
                          \<lparr>via = r, verb = ascii ''POST'',
                           url = [Lit (base_url e), Lit (ascii ''/file/parse_process'')],
                           body = Json (JObject [(ascii ''ids'', JArray [i])]),
                           stream = False\<rparr> w of
                     (Inl x, w') \<Rightarrow> (Inl x, (e, w'))
                   | (Inr parse_resp, w') \<Rightarrow>
                       (case raise_for_status parse_resp of
                          Some x \<Rightarrow> (Inl x, (e, w'))
                        | None \<Rightarrow> (Inr (), (e, w')))))))"

definition uploaded_file :: "json \<Rightarrow> exn + UploadedFile" where
  "uploaded_file file_data =
     (case py_getitem file_data (ascii ''id'') of
        Inl x \<Rightarrow> Inl x
      | Inr i \<Rightarrow>
          (case py_getitem file_data (ascii ''name'') of
             Inl x \<Rightarrow> Inl x
           | Inr n \<Rightarrow>
               (case py_getitem file_data (ascii ''object_name'') of
                  Inl x \<Rightarrow> Inl x
                | Inr obj \<Rightarrow>
                    (case py_getitem file_data (ascii ''type'') of
                       Inl x \<Rightarrow> Inl x
                     | Inr t \<Rightarrow>
                         (case py_get file_data (ascii ''meta'') (JObject []) of
                            Inl x \<Rightarrow> Inl x
                          | Inr m \<Rightarrow>
                              Inr \<lparr>uf_id = i, uf_name = n, uf_object_name = obj,
                                   uf_file_type = t, uf_meta = m\<rparr>)))))"

text \<open>The body of the \<^verbatim>\<open>try\<close> block.\<close>

definition upload_steps ::
  "env \<Rightarrow> ustr \<Rightarrow> ustr \<Rightarrow> ustr \<Rightarrow> state \<Rightarrow> (exn + UploadedFile) \<times> state" where
  "upload_steps ev file_path file_name file_type st =
     (case presign ev file_name file_type st of
        (Inl x, s1) \<Rightarrow> (Inl x, s1)
      | (Inr pre_sign_data, s1) \<Rightarrow>
          (case put_content ev file_path pre_sign_data s1 of
             (Inl x, s2) \<Rightarrow> (Inl x, s2)
           | (Inr u2, s2) \<Rightarrow>
               (case register_file ev file_name file_type pre_sign_data s2 of
                  (Inl x, s3) \<Rightarrow> (Inl x, s3)
                | (Inr file_data, s3) \<Rightarrow>
                    (case (if file_type = ascii ''file'' then parse_process ev file_data s3
                           else (Inr (), s3)) of
                       (Inl x, s4) \<Rightarrow> (Inl x, s4)
                     | (Inr u4, s4) \<Rightarrow> (uploaded_file file_data, s4)))))"

definition upload_file :: "env \<Rightarrow> ustr \<Rightarrow> state \<Rightarrow> (exn + UploadedFile) \<times> state" where
  "upload_file ev file_path st =
     (if \<not> path_exists ev file_path then (Inl (FileNotFoundError file_path), st)
      else
        (case upload_steps ev file_path (basename file_path)
                (file_type_of (basename file_path)) st of
           (Inl x, st') \<Rightarrow> (Inl (FileUploadError file_path x), st')
         | (Inr f, st') \<Rightarrow> (Inr f, st')))"

subsection \<open>\<^verbatim>\<open>close\<close>\<close>

definition close :: "state \<Rightarrow> state" where
  "close st =
     (case st of (e, w) \<Rightarrow>
        (case session e of
           None \<Rightarrow> st
         | Some r \<Rightarrow>
             (e\<lparr>session := None, is_initialized := False\<rparr>,
              w\<lparr>heap := (heap w)(r := (heap w r)\<lparr>closed := True\<rparr>)\<rparr>)))"

section \<open>Vocabulary of the properties\<close>

text \<open>
  What one line contributes to the stream: the event it makes the generator yield, if any,
  and whether it makes the generator raise.
\<close>

definition line_events :: "limits \<Rightarrow> bytes \<Rightarrow> StreamEvent list" where
  "line_events lim l = (case process_line lim l of Emit ev \<Rightarrow> [ev] | _ \<Rightarrow> [])"

definition line_raises :: "limits \<Rightarrow> bytes \<Rightarrow> bool" where
  "line_raises lim l = (case process_line lim l of Raise x \<Rightarrow> True | _ \<Rightarrow> False)"

text \<open>
  \<open>payload_of l\<close> is the text that the loop hands to \<^verbatim>\<open>json.loads\<close> for the
  line \<open>l\<close>, when it gets that far: the line is valid UTF-8, starts with \<^verbatim>\<open>data:\<close>
  once stripped, and what follows is not blank.
\<close>

definition payload_of :: "bytes \<Rightarrow> ustr option" where
  "payload_of l =
     (case decode_utf8 l of
        None \<Rightarrow> None
      | Some decoded \<Rightarrow>
          if startswith (strip decoded) (ascii ''data:'')
             \<and> strip (drop 5 (strip decoded)) \<noteq> []
          then Some (strip (drop 5 (strip decoded)))
          else None)"

text \<open>
  The lines the decoder passes over: text that does not start with \<^verbatim>\<open>data:\<close> once
  decoded and stripped, a blank payload, a payload on which \<^verbatim>\<open>json.loads\<close> raises
  \<open>JSONDecodeError\<close>, and an object whose \<^verbatim>\<open>event\<close> is none of the three known
  ones. \<open>not_an_object\<close> are the lines whose payload is JSON but not an object,
  \<open>beyond_limits\<close> those on whose payload \<^verbatim>\<open>json.loads\<close> raises another exception
  than \<open>JSONDecodeError\<close>: an integer literal longer than the interpreter converts,
  or arrays and objects nested deeper than it can follow.
\<close>

definition known_events :: "json list" where
  "known_events =
     [JString (ascii ''cmpl''), JString (ascii ''search_info''), JString (ascii ''status'')]"

definition tolerated_line :: "limits \<Rightarrow> bytes \<Rightarrow> bool" where
  "tolerated_line lim l =
     (case decode_utf8 l of
        None \<Rightarrow> False
      | Some decoded \<Rightarrow>
          (if \<not> startswith (strip decoded) (ascii ''data:'') then True
           else if strip (drop 5 (strip decoded)) = [] then True
           else
             (case json_loads lim (strip (drop 5 (strip decoded))) of
                Inl x \<Rightarrow> x = JSONDecodeError
              | Inr (JObject kvs) \<Rightarrow>
                  (case map_of kvs (ascii ''event'') of
                     None \<Rightarrow> True
                   | Some v \<Rightarrow> v \<notin> set known_events)
              | Inr other \<Rightarrow> False)))"

definition not_an_object :: "limits \<Rightarrow> bytes \<Rightarrow> bool" where
  "not_an_object lim l =
     (case payload_of l of
        None \<Rightarrow> False
      | Some p \<Rightarrow>
          (case json_loads lim p of
             Inl x \<Rightarrow> False
           | Inr (JObject kvs) \<Rightarrow> False
           | Inr other \<Rightarrow> True))"

definition beyond_limits :: "limits \<Rightarrow> bytes \<Rightarrow> bool" where
  "beyond_limits lim l =
     (case payload_of l of
        None \<Rightarrow> False
      | Some p \<Rightarrow>
          (case json_loads lim p of
             Inl x \<Rightarrow> x \<noteq> JSONDecodeError
           | Inr v \<Rightarrow> False))"

text \<open>
  \<open>credential entries\<close> is what \<^verbatim>\<open>session.cookies.get('kimi-auth')\<close> gives once
  the cookies of a cookie file have been set in the jar of a new session.
  \<open>auth_cookies\<close> are the cookies of the file that are named \<^verbatim>\<open>kimi-auth\<close>.
\<close>

definition credential :: "cookie list \<Rightarrow> exn + ustr option" where
  "credential entries = cookies_get (jar_update [] (jar_of entries)) (ascii ''kimi-auth'')"

definition auth_cookies :: "cookie list \<Rightarrow> cookie list" where
  "auth_cookies entries = filter (\<lambda>c. c_name c = ascii ''kimi-auth'') entries"

text \<open>
  A cookie file gives no credential when its path does not exist, when it cannot be
  loaded, or when each \<^verbatim>\<open>kimi-auth\<close> cookie it holds, if any, has no value or an empty
  one.
\<close>

definition no_credential :: "env \<Rightarrow> ustr \<Rightarrow> bool" where
  "no_credential ev path =
     (if path_exists ev path then
        (case load_cookie_file ev path of
           Inl x \<Rightarrow> True
         | Inr entries \<Rightarrow>
             list_all (\<lambda>c. c_value c = None \<or> c_value c = Some []) (auth_cookies entries))
      else True)"

definition is_authentication_error :: "exn + 'a \<Rightarrow> bool" where
  "is_authentication_error res =
     (case res of Inl (AuthenticationError f c) \<Rightarrow> True | _ \<Rightarrow> False)"

text \<open>
  The requests the code hands to the HTTP library: the ones \<^verbatim>\<open>_make_request\<close>
  builds, the streaming POST of a chat, and those of the upload pipeline.
\<close>

definition plain_request :: "nat \<Rightarrow> ustr \<Rightarrow> url_part list \<Rightarrow> body \<Rightarrow> request" where
  "plain_request r m u b = \<lparr>via = r, verb = m, url = u, body = b, stream = False\<rparr>"

definition stream_request ::
  "nat \<Rightarrow> KimiChat \<Rightarrow> ustr \<Rightarrow> KimiMessage list \<Rightarrow> bool \<Rightarrow> json list \<Rightarrow> request" where
  "stream_request r chat prompt history use_search file_ids =
     \<lparr>via = r, verb = ascii ''POST'', url = stream_url chat,
      body = Json (stream_payload prompt history use_search file_ids), stream = True\<rparr>"

definition create_chat_request ::
  "env \<Rightarrow> ustr \<Rightarrow> state \<Rightarrow> (exn + response) \<times> state" where
  "create_chat_request ev name st =
     make_request ev (ascii ''POST'') [Lit (base_url (fst st)), Lit (ascii ''/chat'')]
       (Json (create_chat_payload name)) st"

definition presign_request :: "nat \<Rightarrow> ustr \<Rightarrow> ustr \<Rightarrow> request" where
  "presign_request r base file_name =
     plain_request r (ascii ''POST'') [Lit base, Lit (ascii ''/pre-sign-url'')]
       (Json (JObject [(ascii ''name'', JString file_name),
                       (ascii ''action'', JString (file_type_of file_name))]))"

definition put_request :: "nat \<Rightarrow> json \<Rightarrow> bytes \<Rightarrow> request" where
  "put_request r u file_bytes = plain_request r (ascii ''PUT'') [Val u] (Data file_bytes)"

definition registration_url :: "ustr \<Rightarrow> url_part list" where
  "registration_url base = [Lit base, Lit (ascii ''/file'')]"

definition registration_request :: "nat \<Rightarrow> ustr \<Rightarrow> ustr \<Rightarrow> json \<Rightarrow> json \<Rightarrow> request" where
  "registration_request r base file_name object_name file_id =
     plain_request r (ascii ''POST'') (registration_url base)
       (Json (JObject [(ascii ''name'', JString file_name),
                       (ascii ''object_name'', object_name),
                       (ascii ''type'', JString (file_type_of file_name)),
                       (ascii ''file_id'', file_id)]))"



section \<open>Sample data\<close>

text \<open>
  An interpreter with the default limit on integer literals, a cookie file that holds a
  token, a backend that answers every request with the same successful response, and a
  world in which nothing has happened yet.
\<close>

definition sample_limits :: limits where
  "sample_limits = \<lparr>int_max_str_digits = 4300, recursion_room = 900\<rparr>"

definition sample_lines :: "bytes list" where
  \<open>sample_lines =
     [''data:{"event":"cmpl","text":"A"}'', ''data:{"event":"cmpl","text":"B"}'',
      ''data:{"event":"status"}'']\<close>

definition sample_response :: response where
  \<open>sample_response =
     \<lparr>status_code = 200, resp_text = ascii ''{"id":"abc123"}'',
      body_lines = sample_lines, body_end = None\<rparr>\<close>

definition sample_cookies :: "cookie list" where
  "sample_cookies =
     [Cookie (ascii ''.kimi.com'') (ascii ''/'') (ascii ''kimi-auth'') (Some (ascii ''secret''))]"

definition sample_env :: env where
  "sample_env =
     \<lparr>interp = sample_limits,
      path_exists = (\<lambda>p. True), read_file = (\<lambda>p. Inr ''content''),
      load_cookie_file = (\<lambda>p. Inr sample_cookies),
      random_ids = (\<lambda>n. (ascii ''1'', ascii ''2'', ascii ''3'')),
      send = (\<lambda>h req s. Inr sample_response)\<rparr>"

definition empty_world :: world where
  "empty_world =
     \<lparr>heap = (\<lambda>r. \<lparr>headers = Map.empty, cookies = [], closed = False\<rparr>),
      next_ref = 0, trace = []\<rparr>"

definition sample_chat :: KimiChat where
  "sample_chat =
     \<lparr>chat_id = JString (ascii ''abc123''), chat_session = Some 0,
      chat_base_url = ascii ''https://www.kimi.com/api''\<rparr>"

text \<open>
  Variations of the sample backend: one that streams the given lines, one whose cookie file
  holds other cookies only, one whose cookie file holds two \<^verbatim>\<open>kimi-auth\<close> cookies of
  different sites, one without the file to upload, and one that answers with a JSON object
  that has no \<^verbatim>\<open>id\<close>.
\<close>

definition streaming_env :: "bytes list \<Rightarrow> env" where
  "streaming_env ls =
     sample_env\<lparr>send := (\<lambda>h req s. Inr (sample_response\<lparr>body_lines := ls\<rparr>))\<rparr>"

definition other_cookies :: "cookie list" where
  "other_cookies =
     [Cookie (ascii ''.kimi.com'') (ascii ''/'') (ascii ''theme'') (Some (ascii ''dark''))]"

definition tokenless_env :: env where
  "tokenless_env = sample_env\<lparr>load_cookie_file := (\<lambda>p. Inr other_cookies)\<rparr>"

definition conflicting_cookies :: "cookie list" where
  "conflicting_cookies =
     [Cookie (ascii ''.kimi.com'') (ascii ''/'') (ascii ''kimi-auth'') (Some (ascii ''secret'')),
      Cookie (ascii ''.moonshot.cn'') (ascii ''/'') (ascii ''kimi-auth'') (Some (ascii ''older''))]"

definition conflicting_env :: env where
  "conflicting_env = sample_env\<lparr>load_cookie_file := (\<lambda>p. Inr conflicting_cookies)\<rparr>"

definition fileless_env :: env where
  "fileless_env = sample_env\<lparr>path_exists := (\<lambda>p. False)\<rparr>"



text \<open>
  A backend that refuses every request with status 401, and backends that answer the
  requests of an upload and answer the PUT of the bytes with status 401 or with status 304;
  \<open>presign_data\<close> is the pre-sign answer as \<^verbatim>\<open>response.json()\<close> returns it.
\<close>

definition presign_response :: response where
  \<open>presign_response =
     \<lparr>status_code = 200,
      resp_text = ascii ''{"url":"https://store.example/put","object_name":"obj-1"}'',
      body_lines = [], body_end = None\<rparr>\<close>

definition presign_data :: json where
  "presign_data =
     JObject [(ascii ''url'', JString (ascii ''https://store.example/put'')),
              (ascii ''object_name'', JString (ascii ''obj-1''))]"

definition registered_response :: response where
  \<open>registered_response =
     \<lparr>status_code = 200,
      resp_text = ascii ''{"id":"f1","name":"photo.JPG","object_name":"obj-1","type":"image"}'',
      body_lines = [], body_end = None\<rparr>\<close>

definition denied_response :: response where
  "denied_response =
     \<lparr>status_code = 401, resp_text = ascii ''denied'', body_lines = [], body_end = None\<rparr>"

definition not_modified_response :: response where
  "not_modified_response =
     \<lparr>status_code = 304, resp_text = [], body_lines = [], body_end = None\<rparr>"

definition refusing_env :: env where
  "refusing_env = sample_env\<lparr>send := (\<lambda>h req s. Inr denied_response)\<rparr>"

definition upload_env :: "response \<Rightarrow> env" where
  "upload_env put_response =
     sample_env\<lparr>send := (\<lambda>h req s.
        if verb req = ascii ''PUT'' then Inr put_response
        else if url req = registration_url (ascii ''https://www.kimi.com/api'')
        then Inr registered_response
        else Inr presign_response)\<rparr>"

definition put_refusing_env :: env where
  "put_refusing_env = upload_env denied_response"

text \<open>An engine that was opened on the sample backend, and the same engine closed.\<close>

definition opened_engine :: state where
  "opened_engine =
     snd (initialize_session sample_env (new_engine (ascii ''cookies.txt''), empty_world))"

definition closed_engine :: state where
  "closed_engine = close opened_engine"

section \<open>Properties\<close>

subsection \<open>Evaluation\<close>

lemmas text_eval = ascii_def decode_utf8_def utf8_first_def cont_byte_def
  strip_def isspace_def startswith_def

lemmas json_eval = ascii_def json_loads_def json_ws_def is_digit_def hex_digit_def
  unescape_def low_surrogate_after_def digits_value_def match_int_def match_frac_def
  match_exp_def match_number_def scan_atom_def sample_limits_def

lemmas line_eval = process_line_def dispatch_def text_eval json_eval

lemmas cookie_eval = jar_of_def jar_update_def set_cookie_def jar_cookies_def
  cookies_get_def endswith_def credential_def

lemmas session_eval = make_request_def initialize_session_def load_cookies_def perform_def
  raise_for_status_def ok_def new_engine_def empty_world_def sample_env_def
  sample_cookies_def Let_def cookie_eval

subsection \<open>The stream decoder\<close>

lemma ok_unread: "ok (unread r) = ok r"
  by (simp add: ok_def unread_def)

lemma decode_lines_events:
  "fst (decode_lines lim ls ending) =
     concat (map (line_events lim) (takeWhile (\<lambda>l. \<not> line_raises lim l) ls))"
  by (induction ls)
     (auto simp: line_events_def line_raises_def split: line_result.splits prod.splits)

text \<open>
  The three sample lines hold no integer and one object each: they decode the same under
  all limits of the interpreter that let \<^verbatim>\<open>json.loads\<close> enter one object.
\<close>

lemma sample_lines_decoded:
  "0 < recursion_room lim \<Longrightarrow>
   decode_lines lim sample_lines ending =
     ([CompletionChunk (ascii ''cmpl'') (JString (ascii ''A'')),
       CompletionChunk (ascii ''cmpl'') (JString (ascii ''B'')),
       StatusUpdate (ascii ''status'')], ending)"
  by (simp add: sample_lines_def line_eval)

lemma stream_of_response:
  assumes "chat_session chat = Some r"
    and "send ev (trace w) (stream_request r chat prompt history use_search file_ids)
           (heap w r) = Inr resp"
    and "ok resp"
  shows "fst (send_message_stream ev chat prompt history use_search file_ids w) =
           (fst (decode_lines (interp ev) (body_lines resp) (body_end resp)),
            map_option translate (snd (decode_lines (interp ev) (body_lines resp) (body_end resp))))"
  using assms
  by (simp add: send_message_stream_def perform_def stream_request_def raise_for_status_def
        ok_unread split: prod.splits)

text \<open>
  C1. The events a stream yields are the events of its lines, line by line in the order of
  the lines, up to the first line that raises: nothing is reordered, held back or dropped as
  a duplicate. The three sample lines yield exactly CompletionChunk A, CompletionChunk B,
  StatusUpdate, whenever the interpreter has the room to decode one JSON object.
\<close>

theorem stream_order_preserved:
  assumes "chat_session chat = Some r"
    and "send ev (trace w) (stream_request r chat prompt history use_search file_ids)
           (heap w r) = Inr resp"
    and "ok resp"
  shows "fst (fst (send_message_stream ev chat prompt history use_search file_ids w)) =
           concat (map (line_events (interp ev))
                     (takeWhile (\<lambda>l. \<not> line_raises (interp ev) l) (body_lines resp)))
         \<and> (body_lines resp = sample_lines \<and> 0 < recursion_room (interp ev) \<longrightarrow>
              fst (send_message_stream ev chat prompt history use_search file_ids w) =
                ([CompletionChunk (ascii ''cmpl'') (JString (ascii ''A'')),
                  CompletionChunk (ascii ''cmpl'') (JString (ascii ''B'')),
                  StatusUpdate (ascii ''status'')],
                 map_option translate (body_end resp)))"
proof -
  note sent = stream_of_response[OF assms]
  have "fst (fst (send_message_stream ev chat prompt history use_search file_ids w)) =
          concat (map (line_events (interp ev))
                    (takeWhile (\<lambda>l. \<not> line_raises (interp ev) l) (body_lines resp)))"
    by (simp add: sent decode_lines_events)
  moreover have "body_lines resp = sample_lines \<and> 0 < recursion_room (interp ev) \<longrightarrow>
      fst (send_message_stream ev chat prompt history use_search file_ids w) =
        ([CompletionChunk (ascii ''cmpl'') (JString (ascii ''A'')),
          CompletionChunk (ascii ''cmpl'') (JString (ascii ''B'')),
          StatusUpdate (ascii ''status'')],
         map_option translate (body_end resp))"
    by (simp add: sent sample_lines_decoded)
  ultimately show ?thesis by blast
qed

theorem stream_order_preserved_witness:
  "fst (send_message_stream sample_env sample_chat (ascii ''hi'') [] True [] empty_world) =
     ([CompletionChunk (ascii ''cmpl'') (JString (ascii ''A'')),
       CompletionChunk (ascii ''cmpl'') (JString (ascii ''B'')),
       StatusUpdate (ascii ''status'')], None)
   \<and> concat (map (line_events sample_limits)
               (takeWhile (\<lambda>l. \<not> line_raises sample_limits l) sample_lines)) =
     [CompletionChunk (ascii ''cmpl'') (JString (ascii ''A'')),
      CompletionChunk (ascii ''cmpl'') (JString (ascii ''B'')),
      StatusUpdate (ascii ''status'')]"
proof -
  have c: "chat_session sample_chat = Some 0"
    by (simp add: sample_chat_def)
  have s: "send sample_env (trace empty_world)
             (stream_request 0 sample_chat (ascii ''hi'') [] True []) (heap empty_world 0) =
           Inr sample_response"
    by (simp add: sample_env_def)
  have k: "ok sample_response"
    by (simp add: sample_response_def ok_def)
  have b: "body_lines sample_response = sample_lines" "body_end sample_response = None"
    by (simp_all add: sample_response_def)
  have i: "interp sample_env = sample_limits" "0 < recursion_room sample_limits"
    by (simp_all add: sample_env_def sample_limits_def)
  from stream_order_preserved[OF c s k]
  have 1: "fst (fst (send_message_stream sample_env sample_chat (ascii ''hi'') [] True []
                       empty_world)) =
           concat (map (line_events (interp sample_env))
                     (takeWhile (\<lambda>l. \<not> line_raises (interp sample_env) l)
                        (body_lines sample_response)))"
    and 2: "body_lines sample_response = sample_lines
              \<and> 0 < recursion_room (interp sample_env) \<longrightarrow>
            fst (send_message_stream sample_env sample_chat (ascii ''hi'') [] True []
                   empty_world) =
            ([CompletionChunk (ascii ''cmpl'') (JString (ascii ''A'')),
              CompletionChunk (ascii ''cmpl'') (JString (ascii ''B'')),
              StatusUpdate (ascii ''status'')],
             map_option translate (body_end sample_response))"
    by blast+
  from 2 b i
  have 3: "fst (send_message_stream sample_env sample_chat (ascii ''hi'') [] True []
                  empty_world) =
           ([CompletionChunk (ascii ''cmpl'') (JString (ascii ''A'')),
             CompletionChunk (ascii ''cmpl'') (JString (ascii ''B'')),
             StatusUpdate (ascii ''status'')], None)"
    by simp
  from 1 have 4: "fst (fst (send_message_stream sample_env sample_chat (ascii ''hi'') [] True []
                              empty_world)) =
                  concat (map (line_events sample_limits)
                            (takeWhile (\<lambda>l. \<not> line_raises sample_limits l) sample_lines))"
    unfolding b(1) i(1) .
  from 3 4 show ?thesis
    by (metis fst_conv)
qed

subsection \<open>Initialization\<close>

lemma initialize_session_succeeds:
  assumes "\<not> is_initialized e"
    and "path_exists ev (cookies_path e)"
    and "load_cookie_file ev (cookies_path e) = Inr entries"
    and "credential entries = Inr (Some tok)"
    and "tok \<noteq> []"
  shows "\<exists>e' w'. initialize_session ev (e, w) = (Inr (), (e', w'))
           \<and> is_initialized e' \<and> session e' = Some (next_ref w)
           \<and> headers (heap w' (next_ref w)) (ascii ''Authorization'')
               = Some (ascii ''Bearer '' @ tok)
           \<and> \<not> closed (heap w' (next_ref w))
           \<and> (\<forall>r. r \<noteq> next_ref w \<longrightarrow> heap w' r = heap w r)
           \<and> next_ref w' = Suc (next_ref w)
           \<and> base_url e' = base_url e \<and> cookies_path e' = cookies_path e
           \<and> trace w' = trace w"
  using assms
  by (simp add: initialize_session_def load_cookies_def Let_def credential_def)

lemma sample_credential: "credential sample_cookies = Inr (Some (ascii ''secret''))"
  by (simp add: sample_cookies_def cookie_eval ascii_def)

subsection \<open>Requests\<close>

lemma make_request_with_session:
  assumes "session e = Some r"
  shows "make_request ev m u b (e, w) =
           ((case send ev (trace w) (plain_request r m u b) (heap w r) of
               Inl x \<Rightarrow> Inl (translate x)
             | Inr resp \<Rightarrow>
                 if ok resp then Inr resp
                 else Inl (translate (RequestsError (Some (status_code resp, resp_text resp))))),
            (e, w\<lparr>trace := trace w @ [plain_request r m u b]\<rparr>))"
  using assms
  by (simp add: make_request_def perform_def plain_request_def raise_for_status_def
        split: sum.splits)

lemma initialize_session_keeps:
  assumes "initialize_session ev (e, w) = (res, (e', w'))"
  shows "trace w' = trace w \<and> base_url e' = base_url e"
  using assms
  by (auto simp: initialize_session_def load_cookies_def Let_def
        split: if_splits sum.splits option.splits prod.splits)

lemma make_request_returns:
  assumes "make_request ev m u b (e, w) = (Inr resp, (e', w'))"
  shows "\<exists>r. session e' = Some r \<and> trace w' = trace w @ [plain_request r m u b]
           \<and> base_url e' = base_url e
           \<and> send ev (trace w) (plain_request r m u b) (heap w' r) = Inr resp \<and> ok resp"
proof (cases "session e")
  case (Some r)
  from assms Some show ?thesis
    by (auto simp: make_request_with_session[OF Some] split: sum.splits if_splits)
next
  case None
  obtain res e1 w1 where i: "initialize_session ev (e, w) = (res, (e1, w1))"
    by (cases "initialize_session ev (e, w)") auto
  note k = initialize_session_keeps[OF i]
  from assms None i obtain r where r: "session e1 = Some r" and "res = Inr ()"
    by (auto simp: make_request_def split: sum.splits option.splits)
  with assms None i have "make_request ev m u b (e1, w1) = (Inr resp, (e', w'))"
    by (simp add: make_request_def)
  with k r show ?thesis
    by (auto simp: make_request_with_session[OF r] split: sum.splits if_splits)
qed

subsection \<open>Closing\<close>

lemma close_with_session:
  assumes "session e = Some r"
  shows "close (e, w) =
           (e\<lparr>session := None, is_initialized := False\<rparr>,
            w\<lparr>heap := (heap w)(r := (heap w r)\<lparr>closed := True\<rparr>)\<rparr>)"
  using assms by (simp add: close_def)

lemma make_request_initializes:
  assumes "session e = None"
    and "initialize_session ev (e, w) = (Inr (), (e', w'))"
    and "session e' = Some r'"
  shows "make_request ev m u b (e, w) = make_request ev m u b (e', w')"
  using assms by (simp add: make_request_def)

text \<open>
  C3 (amended). After \<^verbatim>\<open>close\<close> the engine holds no session and is not initialized,
  and the session object it held is closed for every holder. No operation checks for a
  closed engine: with a cookie file that gives a credential, the next
  \<^verbatim>\<open>_make_request\<close> creates and initializes a new session and sends its request
  through it, and returns the response when the backend accepts the request. A chat created before
  still hands its request to the closed session object.
\<close>

theorem close_then_request_reinitializes:
  assumes "session e = Some r"
    and "r < next_ref w"
    and "path_exists ev (cookies_path e)"
    and "load_cookie_file ev (cookies_path e) = Inr entries"
    and "credential entries = Inr (Some tok)"
    and "tok \<noteq> []"
    and "chat_session chat = Some r"
  shows "session (fst (close (e, w))) = None
       \<and> \<not> is_initialized (fst (close (e, w)))
       \<and> closed (heap (snd (close (e, w))) r)
       \<and> (\<exists>res e' w'.
             make_request ev m u b (close (e, w)) = (res, (e', w'))
             \<and> session e' = Some (next_ref w) \<and> is_initialized e'
             \<and> closed (heap w' r) \<and> \<not> closed (heap w' (next_ref w))
             \<and> trace w' = trace w @ [plain_request (next_ref w) m u b]
             \<and> (\<forall>resp. send ev (trace w) (plain_request (next_ref w) m u b)
                           (heap w' (next_ref w)) = Inr resp \<and> ok resp
                        \<longrightarrow> res = Inr resp))
       \<and> trace (snd (send_message_stream ev chat prompt history use_search file_ids
                        (snd (close (e, w))))) =
           trace w @ [stream_request r chat prompt history use_search file_ids]"
proof -
  let ?e0 = "e\<lparr>session := None, is_initialized := False\<rparr>"
  let ?w0 = "w\<lparr>heap := (heap w)(r := (heap w r)\<lparr>closed := True\<rparr>)\<rparr>"
  have c: "close (e, w) = (?e0, ?w0)"
    by (rule close_with_session[OF assms(1)])
  have n: "next_ref ?w0 = next_ref w" "trace ?w0 = trace w" by simp_all
  from initialize_session_succeeds[of ?e0 ev entries tok ?w0] assms(3-6)
  obtain e' w' where i: "initialize_session ev (?e0, ?w0) = (Inr (), (e', w'))"
    and e': "is_initialized e'" "session e' = Some (next_ref w)"
    and h: "\<not> closed (heap w' (next_ref w))"
           "\<forall>a. a \<noteq> next_ref w \<longrightarrow> heap w' a = heap ?w0 a"
    and t: "trace w' = trace w"
    by auto
  from assms(2) h(2) have old: "closed (heap w' r)" by simp
  have "make_request ev m u b (?e0, ?w0) = make_request ev m u b (e', w')"
    by (rule make_request_initializes[OF _ i e'(2)]) simp
  then have m: "make_request ev m u b (close (e, w)) =
           ((case send ev (trace w) (plain_request (next_ref w) m u b)
                   (heap w' (next_ref w)) of
               Inl x \<Rightarrow> Inl (translate x)
             | Inr resp \<Rightarrow>
                 if ok resp then Inr resp
                 else Inl (translate (RequestsError (Some (status_code resp, resp_text resp))))),
            (e', w'\<lparr>trace := trace w @ [plain_request (next_ref w) m u b]\<rparr>))"
    by (simp add: c make_request_with_session[OF e'(2)] t)
  have s: "trace (snd (send_message_stream ev chat prompt history use_search file_ids
                        (snd (close (e, w))))) =
           trace w @ [stream_request r chat prompt history use_search file_ids]"
    using assms(7)
    by (simp add: c send_message_stream_def perform_def stream_request_def
          split: sum.splits option.splits prod.splits)
  from m e' old h(1) have "\<exists>res e'' w''.
             make_request ev m u b (close (e, w)) = (res, (e'', w''))
             \<and> session e'' = Some (next_ref w) \<and> is_initialized e''
             \<and> closed (heap w'' r) \<and> \<not> closed (heap w'' (next_ref w))
             \<and> trace w'' = trace w @ [plain_request (next_ref w) m u b]
             \<and> (\<forall>resp. send ev (trace w) (plain_request (next_ref w) m u b)
                           (heap w'' (next_ref w)) = Inr resp \<and> ok resp
                        \<longrightarrow> res = Inr resp)"
    by (intro exI[of _ "fst (make_request ev m u b (close (e, w)))"] exI[of _ e']
          exI[of _ "w'\<lparr>trace := trace w @ [plain_request (next_ref w) m u b]\<rparr>"]) auto
  with c s show ?thesis by simp
qed

theorem close_then_request_reinitializes_witness:
  "session (fst closed_engine) = None \<and> \<not> is_initialized (fst closed_engine)
   \<and> closed (heap (snd closed_engine) 0)
   \<and> trace (snd (send_message_stream sample_env sample_chat (ascii ''hi'') [] True []
                    (snd closed_engine))) =
       [stream_request 0 sample_chat (ascii ''hi'') [] True []]"
proof -
  obtain e0 w0 where o: "opened_engine = (e0, w0)"
    by (cases opened_engine)
  then have e0: "session e0 = Some 0" "cookies_path e0 = ascii ''cookies.txt''"
    and w0: "0 < next_ref w0" "trace w0 = []"
    by (auto simp: opened_engine_def session_eval ascii_def)
  have f: "path_exists sample_env (cookies_path e0)"
    "load_cookie_file sample_env (cookies_path e0) = Inr sample_cookies"
    by (simp_all add: sample_env_def)
  have g: "ascii ''secret'' \<noteq> []"
    by (simp add: ascii_def)
  have c: "chat_session sample_chat = Some 0"
    by (simp add: sample_chat_def)
  from close_then_request_reinitializes[OF e0(1) w0(1) f sample_credential g c,
         of "ascii ''POST''" "[]" "Data []" "ascii ''hi''" "[]" True "[]"]
  show ?thesis
    by (simp add: closed_engine_def o w0(2))
qed

text \<open>
  C3 as stated fails: on an engine that was closed, \<^verbatim>\<open>_make_request\<close> raises no
  error. It returns the backend's response, and the engine is initialized again, on a new
  session.
\<close>

theorem request_after_close_succeeds:
  "session (fst closed_engine) = None
   \<and> fst (make_request sample_env (ascii ''POST'') [Lit (ascii ''https://www.kimi.com/api/chat'')]
            (Json JNull) closed_engine) = Inr sample_response
   \<and> session (fst (snd (make_request sample_env (ascii ''POST'')
                           [Lit (ascii ''https://www.kimi.com/api/chat'')]
                           (Json JNull) closed_engine))) = Some 1
   \<and> is_initialized (fst (snd (make_request sample_env (ascii ''POST'')
                                  [Lit (ascii ''https://www.kimi.com/api/chat'')]
                                  (Json JNull) closed_engine)))"
  by (simp add: closed_engine_def opened_engine_def close_def session_eval
        sample_response_def ascii_def)

subsection \<open>Creating a chat\<close>

lemma create_chat_of_object:
  assumes "create_chat_request ev name st = (Inr resp, st')"
    and "json_loads (interp ev) (resp_text resp) = Inr (JObject kvs)"
  shows "create_chat ev name st =
           (Inr \<lparr>chat_id = (case map_of kvs (ascii ''id'') of Some v \<Rightarrow> v | None \<Rightarrow> JNull),
                 chat_session = session (fst st'), chat_base_url = base_url (fst st')\<rparr>, st')"
  using assms
  by (simp add: create_chat_def create_chat_request_def response_json_def)

lemma sample_id_parsed:
  \<open>0 < recursion_room lim \<Longrightarrow>
   json_loads lim (ascii ''{"id":"abc123"}'') =
     Inr (JObject [(ascii ''id'', JString (ascii ''abc123''))])\<close>
  by (simp add: json_eval)

text \<open>
  C9. When the response to the chat-creation request is a JSON object with an
  \<^verbatim>\<open>id\<close> field, the chat that \<^verbatim>\<open>create_chat\<close> returns has that field's value as
  its \<^verbatim>\<open>chat_id\<close>; for the response \<^verbatim>\<open>{"id":"abc123"}\<close> it is \<^verbatim>\<open>"abc123"\<close>,
  whenever the interpreter has the room to decode one JSON object.
\<close>

theorem create_chat_takes_id:
  assumes "create_chat_request ev name st = (Inr resp, st')"
  shows "(json_loads (interp ev) (resp_text resp) = Inr (JObject kvs)
            \<and> map_of kvs (ascii ''id'') = Some v
            \<longrightarrow> (\<exists>chat. create_chat ev name st = (Inr chat, st') \<and> chat_id chat = v))
       \<and> (resp_text resp = ascii ''{\"id\":\"abc123\"}'' \<and> 0 < recursion_room (interp ev)
            \<longrightarrow> (\<exists>chat. create_chat ev name st = (Inr chat, st')
                   \<and> chat_id chat = JString (ascii ''abc123'')))"
proof (intro conjI impI)
  assume "json_loads (interp ev) (resp_text resp) = Inr (JObject kvs)
            \<and> map_of kvs (ascii ''id'') = Some v"
  with create_chat_of_object[OF assms, of kvs]
  show "\<exists>chat. create_chat ev name st = (Inr chat, st') \<and> chat_id chat = v"
    by simp
next
  assume "resp_text resp = ascii ''{\"id\":\"abc123\"}'' \<and> 0 < recursion_room (interp ev)"
  with create_chat_of_object[OF assms, of "[(ascii ''id'', JString (ascii ''abc123''))]"]
    sample_id_parsed[of "interp ev"]
  show "\<exists>chat. create_chat ev name st = (Inr chat, st')
                   \<and> chat_id chat = JString (ascii ''abc123'')"
    by simp
qed

theorem create_chat_takes_id_witness:
  "\<exists>chat st'. create_chat sample_env (ascii ''New Chat'')
                 (new_engine (ascii ''cookies.txt''), empty_world) = (Inr chat, st')
      \<and> chat_id chat = JString (ascii ''abc123'')"
proof -
  obtain res st' where r: "create_chat_request sample_env (ascii ''New Chat'')
      (new_engine (ascii ''cookies.txt''), empty_world) = (res, st')"
    by (cases "create_chat_request sample_env (ascii ''New Chat'')
      (new_engine (ascii ''cookies.txt''), empty_world)")
  then have "res = Inr sample_response"
    by (auto simp: create_chat_request_def session_eval sample_response_def ascii_def)
  with r have "create_chat_request sample_env (ascii ''New Chat'')
      (new_engine (ascii ''cookies.txt''), empty_world) = (Inr sample_response, st')"
    by simp
  from create_chat_takes_id[OF this]
  have "\<exists>chat. create_chat sample_env (ascii ''New Chat'')
                 (new_engine (ascii ''cookies.txt''), empty_world) = (Inr chat, st')
      \<and> chat_id chat = JString (ascii ''abc123'')"
    by (simp add: sample_response_def sample_env_def sample_limits_def)
  then show ?thesis
    by blast
qed



subsection \<open>The upload pipeline\<close>

lemma sample_names:
  "basename (ascii ''docs/report.pdf'') = ascii ''report.pdf''"
  "file_type_of (ascii ''report.pdf'') = ascii ''file''"
  by (simp_all add: basename_def file_type_of_def file_ext_def lower_def image_extensions_def
        ascii_def)

text \<open>
  C5. When the file does not exist, \<^verbatim>\<open>upload_file\<close> raises the not-found error and
  leaves the world as it was: nothing has been sent. When it exists, the exception that
  any step raises (pre-sign, PUT of the bytes, registration, parse request) is raised again
  as \<open>FileUploadError\<close> that carries the file path and that exception as its cause, and
  \<^verbatim>\<open>upload_file\<close> raises nothing else.
\<close>

theorem upload_errors_are_wrapped:
  assumes "n = basename p"
    and "t = file_type_of n"
  shows "(\<not> path_exists ev p \<longrightarrow> upload_file ev p st = (Inl (FileNotFoundError p), st))
       \<and> (path_exists ev p \<longrightarrow>
            (presign ev n t st = (Inl x, s1) \<longrightarrow>
               upload_file ev p st = (Inl (FileUploadError p x), s1))
          \<and> (presign ev n t st = (Inr pre, s1) \<and> put_content ev p pre s1 = (Inl x, s2) \<longrightarrow>
               upload_file ev p st = (Inl (FileUploadError p x), s2))
          \<and> (presign ev n t st = (Inr pre, s1) \<and> put_content ev p pre s1 = (Inr (), s2)
              \<and> register_file ev n t pre s2 = (Inl x, s3) \<longrightarrow>
               upload_file ev p st = (Inl (FileUploadError p x), s3))
          \<and> (presign ev n t st = (Inr pre, s1) \<and> put_content ev p pre s1 = (Inr (), s2)
              \<and> register_file ev n t pre s2 = (Inr file_data, s3) \<and> t = ascii ''file''
              \<and> parse_process ev file_data s3 = (Inl x, s4) \<longrightarrow>
               upload_file ev p st = (Inl (FileUploadError p x), s4))
          \<and> (\<forall>y. fst (upload_file ev p st) = Inl y \<longrightarrow> (\<exists>c. y = FileUploadError p c)))"
  using assms
  by (auto simp: upload_file_def upload_steps_def split: prod.splits sum.splits)

theorem upload_errors_are_wrapped_witness:
  "upload_file fileless_env (ascii ''docs/report.pdf'')
     (new_engine (ascii ''cookies.txt''), empty_world) =
     (Inl (FileNotFoundError (ascii ''docs/report.pdf'')),
      (new_engine (ascii ''cookies.txt''), empty_world))
   \<and> fst (upload_file refusing_env (ascii ''docs/report.pdf'')
            (new_engine (ascii ''cookies.txt''), empty_world)) =
       Inl (FileUploadError (ascii ''docs/report.pdf'')
              (APIError 401 (ascii ''denied'') (RequestsError (Some (401, ascii ''denied'')))))"
proof -
  let ?st = "(new_engine (ascii ''cookies.txt''), empty_world)"
  have n: "ascii ''report.pdf'' = basename (ascii ''docs/report.pdf'')"
    and t: "ascii ''file'' = file_type_of (ascii ''report.pdf'')"
    by (simp_all add: sample_names)
  have a: "\<not> path_exists fileless_env (ascii ''docs/report.pdf'')"
    by (simp add: fileless_env_def)
  have b: "path_exists refusing_env (ascii ''docs/report.pdf'')"
    by (simp add: refusing_env_def sample_env_def)
  obtain s1 where c: "presign refusing_env (ascii ''report.pdf'') (ascii ''file'') ?st =
      (Inl (APIError 401 (ascii ''denied'') (RequestsError (Some (401, ascii ''denied'')))), s1)"
    by (simp add: presign_def session_eval refusing_env_def denied_response_def ascii_def)
  from upload_errors_are_wrapped[OF n t, of fileless_env ?st] a
  have 1: "upload_file fileless_env (ascii ''docs/report.pdf'') ?st =
             (Inl (FileNotFoundError (ascii ''docs/report.pdf'')), ?st)"
    by simp
  from upload_errors_are_wrapped[OF n t, of refusing_env ?st] b c
  have 2: "fst (upload_file refusing_env (ascii ''docs/report.pdf'') ?st) =
       Inl (FileUploadError (ascii ''docs/report.pdf'')
              (APIError 401 (ascii ''denied'') (RequestsError (Some (401, ascii ''denied'')))))"
    by simp
  from 1 2 show ?thesis by simp
qed

subsection \<open>Error statuses\<close>

lemma not_ok_iff: "(\<not> ok resp) = (status_code resp < 200 \<or> 400 \<le> status_code resp)"
  by (auto simp: ok_def)




subsection \<open>The PUT of the bytes\<close>

lemma presign_returns:
  assumes "presign ev file_name (file_type_of file_name) (e, w) = (Inr pre, (e', w'))"
  shows "\<exists>r. session e' = Some r
           \<and> trace w' = trace w @ [presign_request r (base_url e) file_name]
           \<and> base_url e' = base_url e"
proof -
  from assms obtain resp where
    "make_request ev (ascii ''POST'') [Lit (base_url e), Lit (ascii ''/pre-sign-url'')]
       (Json (JObject [(ascii ''name'', JString file_name),
                       (ascii ''action'', JString (file_type_of file_name))])) (e, w)
     = (Inr resp, (e', w'))"
    by (auto simp: presign_def split: sum.splits prod.splits)
  from make_request_returns[OF this] show ?thesis
    by (auto simp: presign_request_def)
qed

lemma put_content_sent:
  assumes "read_file ev p = Inr file_bytes"
    and "session e = Some r"
    and "py_getitem pre (ascii ''url'') = Inr u"
    and "send ev (trace w) (put_request r u file_bytes) (heap w r) = Inr resp"
  shows "put_content ev p pre (e, w) =
           (if ok resp then Inr ()
            else Inl (RequestsError (Some (status_code resp, resp_text resp))),
            (e, w\<lparr>trace := trace w @ [put_request r u file_bytes]\<rparr>))"
  using assms
  by (simp add: put_content_def perform_def put_request_def plain_request_def
        raise_for_status_def)

lemma upload_file_put_fails:
  assumes "path_exists ev p"
    and "presign ev (basename p) (file_type_of (basename p)) st = (Inr pre, s1)"
    and "put_content ev p pre s1 = (Inl x, s2)"
  shows "upload_file ev p st = (Inl (FileUploadError p x), s2)"
  using assms by (simp add: upload_file_def upload_steps_def)

text \<open>
  C6 (amended). When the PUT of the file's bytes to the pre-signed URL gets a status below
  200 or at least 400, \<^verbatim>\<open>upload_file\<close> raises \<open>FileUploadError\<close>, and the requests
  it has made are the pre-sign request and the PUT: the registration request to
  \<^verbatim>\<open>{base}/file\<close> is not made, nor any other. A status from 200 to 399 is accepted:
  the PUT step raises nothing, also for a 3xx status.
\<close>

theorem refused_put_stops_upload:
  assumes "path_exists ev p"
    and "presign ev (basename p) (file_type_of (basename p)) (e, w) = (Inr pre, (e1, w1))"
    and "read_file ev p = Inr file_bytes"
    and "py_getitem pre (ascii ''url'') = Inr u"
    and "session e1 = Some r"
    and "send ev (trace w1) (put_request r u file_bytes) (heap w1 r) = Inr resp"
  shows "(status_code resp < 200 \<or> 400 \<le> status_code resp \<longrightarrow>
            fst (upload_file ev p (e, w)) =
              Inl (FileUploadError p (RequestsError (Some (status_code resp, resp_text resp))))
          \<and> trace (snd (snd (upload_file ev p (e, w)))) =
              trace w @ [presign_request r (base_url e) (basename p), put_request r u file_bytes]
          \<and> (\<forall>q \<in> set (drop (length (trace w)) (trace (snd (snd (upload_file ev p (e, w)))))).
                url q \<noteq> registration_url (base_url e)))
       \<and> (200 \<le> status_code resp \<and> status_code resp < 400 \<longrightarrow>
            put_content ev p pre (e1, w1) =
              (Inr (), (e1, w1\<lparr>trace := trace w1 @ [put_request r u file_bytes]\<rparr>)))"
proof (intro conjI impI)
  assume "200 \<le> status_code resp \<and> status_code resp < 400"
  then have "ok resp"
    by (simp add: ok_def)
  with put_content_sent[OF assms(3,5,4,6)]
  show "put_content ev p pre (e1, w1) =
          (Inr (), (e1, w1\<lparr>trace := trace w1 @ [put_request r u file_bytes]\<rparr>))"
    by simp
next
  assume "status_code resp < 200 \<or> 400 \<le> status_code resp"
  then have n: "\<not> ok resp"
    by (simp add: not_ok_iff)
  from presign_returns[OF assms(2)] assms(5)
  have t1: "trace w1 = trace w @ [presign_request r (base_url e) (basename p)]"
    by auto
  from put_content_sent[OF assms(3,5,4,6)] n
  have pc: "put_content ev p pre (e1, w1) =
              (Inl (RequestsError (Some (status_code resp, resp_text resp))),
               (e1, w1\<lparr>trace := trace w1 @ [put_request r u file_bytes]\<rparr>))"
    by simp
  note up = upload_file_put_fails[OF assms(1,2) pc]
  have u1: "url (presign_request r (base_url e) (basename p)) \<noteq> registration_url (base_url e)"
    by (simp add: presign_request_def plain_request_def registration_url_def ascii_def)
  have u2: "url (put_request r u file_bytes) \<noteq> registration_url (base_url e)"
    by (simp add: put_request_def plain_request_def registration_url_def)
  from up show "fst (upload_file ev p (e, w)) =
      Inl (FileUploadError p (RequestsError (Some (status_code resp, resp_text resp))))"
    by simp
  from up t1 show "trace (snd (snd (upload_file ev p (e, w)))) =
      trace w @ [presign_request r (base_url e) (basename p), put_request r u file_bytes]"
    by simp
  from up t1 u1 u2
  show "\<forall>q \<in> set (drop (length (trace w)) (trace (snd (snd (upload_file ev p (e, w)))))).
          url q \<noteq> registration_url (base_url e)"
    by simp
qed

lemma sample_presign:
  "\<exists>e1 w1. presign put_refusing_env (ascii ''report.pdf'') (ascii ''file'')
              (new_engine (ascii ''cookies.txt''), empty_world) = (Inr presign_data, (e1, w1))
     \<and> session e1 = Some 0 \<and> trace w1 =
          [presign_request 0 (ascii ''https://www.kimi.com/api'') (ascii ''report.pdf'')]"
  by (simp add: presign_def session_eval response_json_def put_refusing_env_def upload_env_def
        registration_url_def presign_response_def presign_data_def
        presign_request_def plain_request_def file_type_of_def file_ext_def lower_def
        image_extensions_def json_eval)

theorem refused_put_stops_upload_witness:
  "fst (upload_file put_refusing_env (ascii ''docs/report.pdf'')
          (new_engine (ascii ''cookies.txt''), empty_world)) =
     Inl (FileUploadError (ascii ''docs/report.pdf'')
            (RequestsError (Some (401, ascii ''denied''))))
   \<and> trace (snd (snd (upload_file put_refusing_env (ascii ''docs/report.pdf'')
                        (new_engine (ascii ''cookies.txt''), empty_world)))) =
       [presign_request 0 (ascii ''https://www.kimi.com/api'') (ascii ''report.pdf''),
        put_request 0 (JString (ascii ''https://store.example/put'')) ''content'']"
proof -
  from sample_presign obtain e1 w1 where
    p: "presign put_refusing_env (basename (ascii ''docs/report.pdf''))
          (file_type_of (basename (ascii ''docs/report.pdf'')))
          (new_engine (ascii ''cookies.txt''), empty_world) = (Inr presign_data, (e1, w1))"
    and s: "session e1 = Some 0"
    by (auto simp: sample_names)
  have x: "path_exists put_refusing_env (ascii ''docs/report.pdf'')"
    and f: "read_file put_refusing_env (ascii ''docs/report.pdf'') = Inr ''content''"
    by (simp_all add: put_refusing_env_def upload_env_def sample_env_def)
  have g: "py_getitem presign_data (ascii ''url'') = Inr (JString (ascii ''https://store.example/put''))"
    by (simp add: presign_data_def ascii_def)
  have a: "send put_refusing_env (trace w1)
             (put_request 0 (JString (ascii ''https://store.example/put'')) ''content'')
             (heap w1 0) = Inr denied_response"
    by (simp add: put_refusing_env_def upload_env_def put_request_def plain_request_def)
  have d: "status_code denied_response < 200 \<or> 400 \<le> status_code denied_response"
    by (simp add: denied_response_def)
  from refused_put_stops_upload[OF x p f g s a] d
  show ?thesis
    by (simp add: denied_response_def new_engine_def empty_world_def sample_names)
qed

text \<open>
  C6 as stated fails: 304 is not a 2xx status, and when the PUT of the bytes is answered
  with it \<^verbatim>\<open>upload_file\<close> raises nothing. It goes on to the registration request to
  \<^verbatim>\<open>{base}/file\<close> and returns the uploaded file.
\<close>

theorem put_304_is_followed_by_registration:
  "status_code not_modified_response = 304
   \<and> fst (upload_file (upload_env not_modified_response) (ascii ''img/photo.JPG'')
            (new_engine (ascii ''cookies.txt''), empty_world)) =
       Inr \<lparr>uf_id = JString (ascii ''f1''), uf_name = JString (ascii ''photo.JPG''),
            uf_object_name = JString (ascii ''obj-1''), uf_file_type = JString (ascii ''image''),
            uf_meta = JObject []\<rparr>
   \<and> trace (snd (snd (upload_file (upload_env not_modified_response) (ascii ''img/photo.JPG'')
                        (new_engine (ascii ''cookies.txt''), empty_world)))) =
       [presign_request 0 (ascii ''https://www.kimi.com/api'') (ascii ''photo.JPG''),
        put_request 0 (JString (ascii ''https://store.example/put'')) ''content'',
        registration_request 0 (ascii ''https://www.kimi.com/api'') (ascii ''photo.JPG'')
          (JString (ascii ''obj-1'')) (JString [])]"
  by (simp add: upload_file_def upload_steps_def presign_def put_content_def register_file_def
        uploaded_file_def session_eval response_json_def upload_env_def
        registration_url_def registration_request_def presign_request_def put_request_def
        plain_request_def presign_response_def registered_response_def
        not_modified_response_def
        basename_def file_type_of_def file_ext_def lower_def image_extensions_def
        json_eval)

subsection \<open>Classification of the file\<close>
















end
